theory Spec2Isabelle
  imports Complex_Main
begin

section \<open>FoodFinder: vector index, multimodal retriever, tools and the agent loop\<close>

text \<open>
  The development follows the Python sources \<^verbatim>\<open>src/vectorstore/faiss_index.py\<close>,
  \<^verbatim>\<open>src/vectorstore/retriever.py\<close>, \<^verbatim>\<open>src/agent/tools/*.py\<close> and
  \<^verbatim>\<open>src/agent/main_agent.py\<close>. Floating-point numbers are modelled by their real values, with the
  \<^verbatim>\<open>astype('float32')\<close> casts and the single-precision arithmetic of the distance
  computation as explicit roundings, exceptions as values of a sum type,
  mutable objects by explicit state passing, and the metadata dictionaries, which the
  retriever mutates through shared references, by an explicit object store.
\<close>

subsection \<open>Exceptions\<close>

datatype value_error = UnknownIndexType | Not2D | DimensionMismatch | CountMismatch

text \<open>
  The exceptions the modelled code can meet. \<open>KeyboardInterrupt\<close> and \<open>SystemExit\<close>
  derive from \<^verbatim>\<open>BaseException\<close> only; everything else derives from \<^verbatim>\<open>Exception\<close>.
\<close>

datatype py_exception =
    ValueError value_error
  | IndexError
  | AttributeError
  | AssertionError
  | FileNotFoundError
  | RuntimeError
  | TypeError
  | UnpicklingError
  | OtherException string
  | KeyboardInterrupt
  | SystemExit

fun is_Exception :: "py_exception \<Rightarrow> bool" where
  "is_Exception KeyboardInterrupt = False"
| "is_Exception SystemExit = False"
| "is_Exception _ = True"

subsection \<open>numpy arrays\<close>

text \<open>
  An array is its shape and its elements in row-major order; \<open>wf_array\<close> says that the
  number of elements is the product of the shape, which every numpy array satisfies.
\<close>

record ndarray =
  shape :: "nat list"
  data :: "real list"

definition ndim :: "ndarray \<Rightarrow> nat" where
  "ndim a = length (shape a)"

definition wf_array :: "ndarray \<Rightarrow> bool" where
  "wf_array a = (length (data a) = prod_list (shape a))"

text \<open>The rows of a rank-2 array, and the rank-1 array holding one vector.\<close>

definition rows :: "ndarray \<Rightarrow> real list list" where
  "rows a = map (\<lambda>i. take (shape a ! 1) (drop (i * (shape a ! 1)) (data a))) [0..<shape a ! 0]"

definition vector :: "real list \<Rightarrow> ndarray" where
  "vector v = \<lparr>shape = [length v], data = v\<rparr>"

subsection \<open>Single precision\<close>

text \<open>
  A finite single-precision number is \<open>m * 2 ^ (e - 23)\<close> with an integer \<open>m\<close> below
  \<open>2 ^ 24\<close> in magnitude and \<open>-126 \<le> e \<le> 127\<close>. \<open>f32_exponent a\<close> is the exponent of
  the binade of \<open>a \<ge> 0\<close>: the least \<open>e\<close> from \<open>-126\<close> on with \<open>a < 2 ^ (e + 1)\<close>
  (subnormal numbers share the exponent \<open>-126\<close>).
\<close>

fun exponent_from :: "nat \<Rightarrow> int \<Rightarrow> real \<Rightarrow> int" where
  "exponent_from 0 e a = e"
| "exponent_from (Suc n) e a =
     (if a < 2 powi (e + 1) then e else exponent_from n (e + 1) a)"

definition f32_exponent :: "real \<Rightarrow> int" where
  "f32_exponent a = exponent_from 253 (- 126) a"

text \<open>Rounding to the nearest integer, a tie to the even one.\<close>

definition round_half_even :: "real \<Rightarrow> int" where
  "round_half_even y =
     (if y - of_int \<lfloor>y\<rfloor> < 1 / 2 then \<lfloor>y\<rfloor>
      else if 1 / 2 < y - of_int \<lfloor>y\<rfloor> then \<lfloor>y\<rfloor> + 1
      else if even \<lfloor>y\<rfloor> then \<lfloor>y\<rfloor>
      else \<lfloor>y\<rfloor> + 1)"

text \<open>
  \<open>float32 x\<close> is the single-precision number nearest to \<open>x\<close>. A magnitude of
  \<open>2 ^ 128 - 2 ^ 103\<close> or more rounds to an infinity, for which the value \<open>2 ^ 128\<close>
  stands: it is larger than every finite single-precision number. There is no
  not-a-number: the difference of two infinities is outside the model.
\<close>

definition float32 :: "real \<Rightarrow> real" where
  "float32 x =
     (if 2 ^ 128 - 2 ^ 103 \<le> \<bar>x\<bar> then sgn x * 2 ^ 128
      else sgn x * of_int (round_half_even (\<bar>x\<bar> / 2 powi (f32_exponent \<bar>x\<bar> - 23)))
             * 2 powi (f32_exponent \<bar>x\<bar> - 23))"

text \<open>\<^verbatim>\<open>a.astype('float32')\<close>: the same shape, every element rounded.\<close>

definition astype_float32 :: "ndarray \<Rightarrow> ndarray" where
  "astype_float32 a = a\<lparr>data := map float32 (data a)\<rparr>"

text \<open>
  \<^verbatim>\<open>xs[i]\<close> on a Python list: positions \<open>0 \<dots> len - 1\<close> read forwards, positions
  \<open>-len \<dots> -1\<close> read backwards from the last element, anything else raises.
\<close>

definition py_getitem :: "'a list \<Rightarrow> int \<Rightarrow> py_exception + 'a" where
  "py_getitem xs i =
     (if 0 \<le> i \<and> i < int (length xs) then Inr (xs ! nat i)
      else if i < 0 \<and> - int (length xs) \<le> i then Inr (xs ! nat (int (length xs) + i))
      else Inl IndexError)"

text \<open>A list comprehension whose element expression can raise: the first exception wins.\<close>

fun comprehension :: "('a \<Rightarrow> py_exception + 'b) \<Rightarrow> 'a list \<Rightarrow> py_exception + 'b list" where
  "comprehension f [] = Inr []"
| "comprehension f (x # xs) =
     (case f x of
        Inl e \<Rightarrow> Inl e
      | Inr y \<Rightarrow> (case comprehension f xs of Inl e \<Rightarrow> Inl e | Inr ys \<Rightarrow> Inr (y # ys)))"

subsection \<open>The faiss library\<close>

text \<open>
  The two index classes that \<^verbatim>\<open>create_index\<close> builds, modelled from the documented
  behaviour of the library. \<open>IndexFlatL2 d xb\<close> holds the stored vectors \<open>xb\<close> in insertion
  order. \<open>IndexIVFFlat d nlist centroids xb\<close> is trained once its centroids are set; a
  stored vector lives in the inverted list of its nearest centroid, and a search scans
  the one list nearest to the query (\<^verbatim>\<open>nprobe = 1\<close>).
\<close>

datatype faiss_index =
    IndexFlatL2 nat "real list list"
  | IndexIVFFlat nat nat "real list list option" "real list list"

fun ix_d :: "faiss_index \<Rightarrow> nat" where
  "ix_d (IndexFlatL2 d xb) = d"
| "ix_d (IndexIVFFlat d nlist cs xb) = d"

fun ix_xb :: "faiss_index \<Rightarrow> real list list" where
  "ix_xb (IndexFlatL2 d xb) = xb"
| "ix_xb (IndexIVFFlat d nlist cs xb) = xb"

definition ntotal :: "faiss_index \<Rightarrow> nat" where
  "ntotal ix = length (ix_xb ix)"

fun is_trained :: "faiss_index \<Rightarrow> bool" where
  "is_trained (IndexFlatL2 d xb) = True"
| "is_trained (IndexIVFFlat d nlist cs xb) = (cs \<noteq> None)"

definition FLT_MAX :: real where
  "FLT_MAX = 340282346638528859811704183484516925440"

text \<open>
  The squared Euclidean distance as the library's reference loop computes it in single
  precision: \<^verbatim>\<open>tmp = x[i] - y[i]; res += tmp * tmp\<close>, every operation rounded.
\<close>

definition sqdist :: "real list \<Rightarrow> real list \<Rightarrow> real" where
  "sqdist q x =
     fold (\<lambda>(a, b) res. float32 (res + float32 (float32 (a - b) * float32 (a - b)))) (zip q x) 0"

text \<open>The position of the centroid nearest to a vector (the first one among equals).\<close>

fun nearest_from :: "real list \<Rightarrow> nat \<Rightarrow> real \<Rightarrow> nat \<Rightarrow> real list list \<Rightarrow> nat" where
  "nearest_from v best bd i [] = best"
| "nearest_from v best bd i (c # cs) =
     (if sqdist v c < bd then nearest_from v i (sqdist v c) (Suc i) cs
      else nearest_from v best bd (Suc i) cs)"

definition nearest :: "real list list \<Rightarrow> real list \<Rightarrow> nat" where
  "nearest cs v = (case cs of [] \<Rightarrow> 0 | c # cs' \<Rightarrow> nearest_from v 0 (sqdist v c) 1 cs')"

text \<open>The positions of the stored vectors that a search compares with the query.\<close>

fun probed :: "faiss_index \<Rightarrow> real list \<Rightarrow> nat list" where
  "probed (IndexFlatL2 d xb) q = [0..<length xb]"
| "probed (IndexIVFFlat d nlist cs xb) q =
     (case cs of
        None \<Rightarrow> []
      | Some c \<Rightarrow> filter (\<lambda>i. nearest c (xb ! i) = nearest c q) [0..<length xb])"

text \<open>
  The \<open>k\<close> nearest candidates by ascending squared distance, equal distances in
  insertion order; missing results are padded with the label \<open>-1\<close> and the distance
  \<open>FLT_MAX\<close>, as the library does.
\<close>

definition knn :: "real list list \<Rightarrow> nat list \<Rightarrow> real list \<Rightarrow> nat \<Rightarrow> (real \<times> int) list" where
  "knn xb cands q k =
     (let hits = take k (sort_key fst (map (\<lambda>i. (sqdist q (xb ! i), int i)) cands))
      in hits @ replicate (k - length hits) (FLT_MAX, - 1))"

text \<open>
  \<^verbatim>\<open>index.search(x, k)\<close> for one query row \<open>q\<close>: the wrapper asserts the width and
  \<^verbatim>\<open>k > 0\<close>, and returns the row of distances and the row of labels.
\<close>

definition faiss_search :: "faiss_index \<Rightarrow> real list \<Rightarrow> int \<Rightarrow> py_exception + (real list \<times> int list)" where
  "faiss_search ix q k =
     (if length q \<noteq> ix_d ix \<or> k \<le> 0 then Inl AssertionError
      else let r = knn (ix_xb ix) (probed ix q) q (nat k)
           in Inr (map fst r, map snd r))"

text \<open>\<^verbatim>\<open>index.add(x)\<close> for a rank-2 array \<open>x\<close>: the wrapper asserts the width.\<close>

fun faiss_add :: "faiss_index \<Rightarrow> ndarray \<Rightarrow> py_exception + faiss_index" where
  "faiss_add (IndexFlatL2 d xb) x =
     (if shape x ! 1 \<noteq> d then Inl AssertionError else Inr (IndexFlatL2 d (xb @ rows x)))"
| "faiss_add (IndexIVFFlat d nlist cs xb) x =
     (if shape x ! 1 \<noteq> d then Inl AssertionError
      else if cs = None then Inl RuntimeError
      else Inr (IndexIVFFlat d nlist cs (xb @ rows x)))"

text \<open>
  \<^verbatim>\<open>index.train(x)\<close>: a flat index has nothing to train; the partitioned one clusters
  the training vectors into \<open>nlist\<close> centroids and refuses fewer vectors than centroids.
  The clustering itself is the parameter \<open>kmeans\<close>.
\<close>

fun faiss_train :: "(nat \<Rightarrow> real list list \<Rightarrow> real list list) \<Rightarrow> faiss_index \<Rightarrow> ndarray
    \<Rightarrow> py_exception + faiss_index" where
  "faiss_train kmeans (IndexFlatL2 d xb) x =
     (if shape x ! 1 \<noteq> d then Inl AssertionError else Inr (IndexFlatL2 d xb))"
| "faiss_train kmeans (IndexIVFFlat d nlist cs xb) x =
     (if shape x ! 1 \<noteq> d then Inl AssertionError
      else if shape x ! 0 < nlist then Inl RuntimeError
      else Inr (IndexIVFFlat d nlist (Some (kmeans nlist (rows x))) xb))"

subsection \<open>FAISSIndex\<close>

record 'm FAISSIndex =
  dimension :: nat
  index_type :: string
  index :: "faiss_index option"
  metadata :: "'m list"

definition FAISSIndex_init :: "nat \<Rightarrow> string \<Rightarrow> 'm FAISSIndex" where
  "FAISSIndex_init d t = \<lparr>dimension = d, index_type = t, index = None, metadata = []\<rparr>"

definition create_index :: "'m FAISSIndex \<Rightarrow> py_exception + 'm FAISSIndex" where
  "create_index s =
     (if index_type s = ''Flat'' then Inr (s\<lparr>index := Some (IndexFlatL2 (dimension s) [])\<rparr>)
      else if index_type s = ''IVF''
        then Inr (s\<lparr>index := Some (IndexIVFFlat (dimension s) 100 None [])\<rparr>)
      else Inl (ValueError UnknownIndexType))"

text \<open>
  \<open>add\<close> returns the index object after the call together with the exception raised, if
  any: the underlying index created on first use stays in place when a later check raises.
\<close>

definition add :: "(nat \<Rightarrow> real list list \<Rightarrow> real list list) \<Rightarrow> 'm FAISSIndex \<Rightarrow> ndarray \<Rightarrow> 'm list
    \<Rightarrow> 'm FAISSIndex \<times> (py_exception + unit)" where
  "add kmeans s embeddings md =
     (case (if index s = None then create_index s else Inr s) of
        Inl e \<Rightarrow> (s, Inl e)
      | Inr s1 \<Rightarrow>
          if ndim embeddings \<noteq> 2 then (s1, Inl (ValueError Not2D))
          else if shape embeddings ! 1 \<noteq> dimension s1 then (s1, Inl (ValueError DimensionMismatch))
          else if shape embeddings ! 0 \<noteq> length md then (s1, Inl (ValueError CountMismatch))
          else (case index s1 of
                  None \<Rightarrow> (s1, Inl AttributeError)
                | Some ix \<Rightarrow>
                    (case (if \<not> is_trained ix
                           then faiss_train kmeans ix (astype_float32 embeddings)
                           else Inr ix) of
                       Inl e \<Rightarrow> (s1, Inl e)
                     | Inr ix1 \<Rightarrow>
                         (case faiss_add ix1 (astype_float32 embeddings) of
                            Inl e \<Rightarrow> (s1\<lparr>index := Some ix1\<rparr>, Inl e)
                          | Inr ix2 \<Rightarrow>
                              (s1\<lparr>index := Some ix2, metadata := metadata s1 @ md\<rparr>, Inr ())))))"

text \<open>
  \<open>search\<close>: the query is cast and flattened to one row, the labels that pass the test
  \<^verbatim>\<open>idx < len(self.metadata)\<close> are looked up in the metadata list.
\<close>

definition search :: "'m FAISSIndex \<Rightarrow> ndarray \<Rightarrow> int \<Rightarrow> py_exception + (real list \<times> 'm list)" where
  "search s query_embedding k =
     (case index s of
        None \<Rightarrow> Inl AttributeError
      | Some ix \<Rightarrow>
          (case faiss_search ix (data (astype_float32 query_embedding)) k of
             Inl e \<Rightarrow> Inl e
           | Inr (distances, indices) \<Rightarrow>
               (case comprehension (py_getitem (metadata s))
                       (filter (\<lambda>idx. idx < int (length (metadata s))) indices) of
                  Inl e \<Rightarrow> Inl e
                | Inr results \<Rightarrow> Inr (distances, results))))"


subsection \<open>Metadata records and the object store\<close>

text \<open>
  A metadata record is a Python dictionary. The lists of an index hold references to
  the dictionaries, and \<^verbatim>\<open>search\<close> returns the same references, so the dictionaries
  live in a store and are addressed by their position in it.
\<close>

datatype py_value = PyStr string | PyFloat real | PyInt int | PyBool bool | PyNone

type_synonym py_dict = "(string \<times> py_value) list"

type_synonym store = "py_dict list"

text \<open>\<^verbatim>\<open>d[key] = v\<close>: an existing key keeps its place, a new key goes last.\<close>

fun dict_set :: "string \<Rightarrow> py_value \<Rightarrow> py_dict \<Rightarrow> py_dict" where
  "dict_set key v [] = [(key, v)]"
| "dict_set key v ((key', v') # kvs) =
     (if key = key' then (key, v) # kvs else (key', v') # dict_set key v kvs)"

text \<open>The records a list of references stands for.\<close>

definition deref :: "store \<Rightarrow> nat list \<Rightarrow> py_dict list" where
  "deref h refs = map (\<lambda>a. h ! a) refs"

subsection \<open>Persisted artifacts\<close>

datatype 'a artifact = Absent | Corrupt | Content 'a

record index_dir =
  text_index_faiss :: "faiss_index artifact"
  text_metadata_pkl :: "py_dict list artifact"
  image_index_faiss :: "faiss_index artifact"
  image_metadata_pkl :: "py_dict list artifact"

text \<open>
  \<open>load\<close>: \<^verbatim>\<open>faiss.read_index\<close> raises \<open>RuntimeError\<close> on a file it cannot read,
  \<^verbatim>\<open>open\<close> raises \<open>FileNotFoundError\<close> on a missing file, and \<^verbatim>\<open>pickle.load\<close> builds
  new dictionaries. The index is replaced before the metadata file is opened.
\<close>

definition load :: "store \<Rightarrow> nat FAISSIndex \<Rightarrow> faiss_index artifact \<Rightarrow> py_dict list artifact
    \<Rightarrow> (store \<times> nat FAISSIndex) \<times> (py_exception + unit)" where
  "load h s index_path metadata_path =
     (case index_path of
        Absent \<Rightarrow> ((h, s), Inl RuntimeError)
      | Corrupt \<Rightarrow> ((h, s), Inl RuntimeError)
      | Content ix \<Rightarrow>
          (case metadata_path of
             Absent \<Rightarrow> ((h, s\<lparr>index := Some ix\<rparr>), Inl FileNotFoundError)
           | Corrupt \<Rightarrow> ((h, s\<lparr>index := Some ix\<rparr>), Inl UnpicklingError)
           | Content recs \<Rightarrow>
               ((h @ recs,
                 s\<lparr>index := Some ix, metadata := [length h..<length h + length recs]\<rparr>),
                Inr ())))"

subsection \<open>MultimodalRetriever\<close>

text \<open>
  The embedding models, the JSON encoder, the exception printer, the image reader and
  the vision-language scorer are services outside the modelled code; each is a
  parameter, and each can raise.
\<close>

type_synonym image = "nat list"

record services =
  text_embed :: "string \<Rightarrow> py_exception + ndarray"
  image_embed :: "string \<Rightarrow> py_exception + ndarray"
  json_dumps :: "py_dict list \<Rightarrow> py_exception + string"
  str_exc :: "py_exception \<Rightarrow> string"
  format_exc :: "py_exception \<Rightarrow> string"
  image_open :: "string \<Rightarrow> py_exception + image"
  clip_probs :: "image \<Rightarrow> string list \<Rightarrow> py_exception + real list"
  fmt_1f :: "real \<Rightarrow> string"

record MultimodalRetriever =
  text_index :: "nat FAISSIndex"
  image_index :: "nat FAISSIndex"

definition MultimodalRetriever_init :: MultimodalRetriever where
  "MultimodalRetriever_init =
     \<lparr>text_index = FAISSIndex_init 768 ''Flat'', image_index = FAISSIndex_init 512 ''Flat''\<rparr>"

definition search_text :: "services \<Rightarrow> MultimodalRetriever \<Rightarrow> string \<Rightarrow> int
    \<Rightarrow> py_exception + nat list" where
  "search_text sv r query k =
     (case text_embed sv query of
        Inl e \<Rightarrow> Inl e
      | Inr embedding \<Rightarrow>
          (case search (text_index r) embedding k of
             Inl e \<Rightarrow> Inl e
           | Inr (distances, results) \<Rightarrow> Inr results))"

text \<open>
  The loop of \<open>search_image\<close> over \<^verbatim>\<open>enumerate(results)\<close>: each result is a reference
  into the store, and the two assignments write through it.
\<close>

fun annotate :: "real list \<Rightarrow> nat \<Rightarrow> nat list \<Rightarrow> store \<Rightarrow> store" where
  "annotate distances i [] h = h"
| "annotate distances i (result # results) h =
     annotate distances (Suc i) results
       (if i < length distances
        then h[result := dict_set ''similarity'' (PyFloat (float32 (1 / float32 (1 + distances ! i))))
                           (dict_set ''distance'' (PyFloat (distances ! i)) (h ! result))]
        else h)"

definition search_image :: "services \<Rightarrow> store \<Rightarrow> MultimodalRetriever \<Rightarrow> string \<Rightarrow> int
    \<Rightarrow> store \<times> (py_exception + nat list)" where
  "search_image sv h r image_path k =
     (case image_embed sv image_path of
        Inl e \<Rightarrow> (h, Inl e)
      | Inr embedding \<Rightarrow>
          (case search (image_index r) embedding k of
             Inl e \<Rightarrow> (h, Inl e)
           | Inr (distances, results) \<Rightarrow> (annotate distances 0 results h, Inr results)))"

text \<open>
  \<open>load_indices\<close>: the text index file must exist; the image index is loaded only when
  its file exists.
\<close>

definition load_indices :: "index_dir \<Rightarrow> store \<Rightarrow> MultimodalRetriever
    \<Rightarrow> (store \<times> MultimodalRetriever) \<times> (py_exception + unit)" where
  "load_indices fs h r =
     (if text_index_faiss fs = Absent then ((h, r), Inl FileNotFoundError)
      else (case load h (text_index r) (text_index_faiss fs) (text_metadata_pkl fs) of
              ((h1, t1), Inl e) \<Rightarrow> ((h1, r\<lparr>text_index := t1\<rparr>), Inl e)
            | ((h1, t1), Inr u) \<Rightarrow>
                (if image_index_faiss fs \<noteq> Absent
                 then (case load h1 (image_index r) (image_index_faiss fs) (image_metadata_pkl fs) of
                         ((h2, i2), res) \<Rightarrow> ((h2, r\<lparr>text_index := t1, image_index := i2\<rparr>), res))
                 else ((h1, r\<lparr>text_index := t1\<rparr>), Inr ()))))"

subsection \<open>The retrieval tools\<close>

text \<open>
  The two retrieval tools share one retriever object. The world a tool runs in holds
  the index directory, the object store and that retriever; a tool object itself holds
  whether it was given a retriever and its flag \<^verbatim>\<open>_indices_loaded\<close>. Each run also
  reports the retriever methods it called, in order.
\<close>

datatype retriever_call = LoadIndices | SearchText | SearchImage

record world =
  files :: index_dir
  objects :: store
  retriever :: MultimodalRetriever

record rag_tool =
  has_retriever :: bool
  indices_loaded :: bool

definition RAGTool_init :: "bool \<Rightarrow> rag_tool" where
  "RAGTool_init given = \<lparr>has_retriever = given, indices_loaded = False\<rparr>"

definition newline :: char where
  "newline = CHR 0x0A"

text \<open>
  The first statement of both \<^verbatim>\<open>_run\<close> methods: load the indices unless the flag is
  set or there is no retriever; the flag is set only after \<open>load_indices\<close> has returned.
\<close>

definition load_once :: "world \<Rightarrow> rag_tool
    \<Rightarrow> (world \<times> rag_tool \<times> retriever_call list) \<times> (py_exception + unit)" where
  "load_once w t =
     (if \<not> indices_loaded t \<and> has_retriever t
      then (case load_indices (files w) (objects w) (retriever w) of
              ((h, r), Inl e) \<Rightarrow> ((w\<lparr>objects := h, retriever := r\<rparr>, t, [LoadIndices]), Inl e)
            | ((h, r), Inr u) \<Rightarrow>
                ((w\<lparr>objects := h, retriever := r\<rparr>, t\<lparr>indices_loaded := True\<rparr>, [LoadIndices]),
                 Inr ()))
      else ((w, t, []), Inr ()))"

text \<open>The body of the \<^verbatim>\<open>try\<close> block of \<^verbatim>\<open>RAGTextTool._run\<close>.\<close>

definition RAGTextTool_try :: "services \<Rightarrow> world \<Rightarrow> rag_tool \<Rightarrow> string \<Rightarrow> int
    \<Rightarrow> (world \<times> rag_tool \<times> retriever_call list) \<times> (py_exception + string)" where
  "RAGTextTool_try sv w t query k =
     (case load_once w t of
        (st, Inl e) \<Rightarrow> (st, Inl e)
      | ((w1, t1, calls), Inr u) \<Rightarrow>
          (if \<not> has_retriever t1 then ((w1, t1, calls), Inl AttributeError)
           else (case search_text sv (retriever w1) query k of
                   Inl e \<Rightarrow> ((w1, t1, calls @ [SearchText]), Inl e)
                 | Inr results \<Rightarrow>
                     (if results = []
                      then ((w1, t1, calls @ [SearchText]),
                            Inr ''No restaurants found matching your query.'')
                      else (case json_dumps sv (deref (objects w1) results) of
                              Inl e \<Rightarrow> ((w1, t1, calls @ [SearchText]), Inl e)
                            | Inr s \<Rightarrow> ((w1, t1, calls @ [SearchText]), Inr s))))))"

text \<open>\<^verbatim>\<open>except Exception as e\<close>: instances of \<^verbatim>\<open>Exception\<close> become the error text.\<close>

definition RAGTextTool_run :: "services \<Rightarrow> world \<Rightarrow> rag_tool \<Rightarrow> string \<Rightarrow> int
    \<Rightarrow> (world \<times> rag_tool \<times> retriever_call list) \<times> (py_exception + string)" where
  "RAGTextTool_run sv w t query k =
     (case RAGTextTool_try sv w t query k of
        (st, Inl e) \<Rightarrow>
          (if is_Exception e
           then (st, Inr (''Error retrieving restaurants: '' @ str_exc sv e @ [newline, newline]
                          @ ''Details:'' @ [newline] @ format_exc sv e))
           else (st, Inl e))
      | (st, Inr s) \<Rightarrow> (st, Inr s))"

text \<open>The body of the \<^verbatim>\<open>try\<close> block of \<^verbatim>\<open>RAGImageTool._run\<close>.\<close>

definition RAGImageTool_try :: "services \<Rightarrow> world \<Rightarrow> rag_tool \<Rightarrow> string \<Rightarrow> int
    \<Rightarrow> (world \<times> rag_tool \<times> retriever_call list) \<times> (py_exception + string)" where
  "RAGImageTool_try sv w t image_path k =
     (case load_once w t of
        (st, Inl e) \<Rightarrow> (st, Inl e)
      | ((w1, t1, calls), Inr u) \<Rightarrow>
          (if \<not> has_retriever t1 then ((w1, t1, calls), Inl AttributeError)
           else (case search_image sv (objects w1) (retriever w1) image_path k of
                   (h, Inl e) \<Rightarrow> ((w1\<lparr>objects := h\<rparr>, t1, calls @ [SearchImage]), Inl e)
                 | (h, Inr results) \<Rightarrow>
                     (if results = []
                      then ((w1\<lparr>objects := h\<rparr>, t1, calls @ [SearchImage]),
                            Inr ''No similar restaurants found for the provided image.'')
                      else (case json_dumps sv (deref h results) of
                              Inl e \<Rightarrow> ((w1\<lparr>objects := h\<rparr>, t1, calls @ [SearchImage]), Inl e)
                            | Inr s \<Rightarrow> ((w1\<lparr>objects := h\<rparr>, t1, calls @ [SearchImage]), Inr s))))))"

definition RAGImageTool_run :: "services \<Rightarrow> world \<Rightarrow> rag_tool \<Rightarrow> string \<Rightarrow> int
    \<Rightarrow> (world \<times> rag_tool \<times> retriever_call list) \<times> (py_exception + string)" where
  "RAGImageTool_run sv w t image_path k =
     (case RAGImageTool_try sv w t image_path k of
        (st, Inl e) \<Rightarrow>
          (if is_Exception e
           then (st, Inr (''Error retrieving similar restaurants: '' @ str_exc sv e
                          @ [newline, newline] @ ''Details:'' @ [newline] @ format_exc sv e))
           else (st, Inl e))
      | (st, Inr s) \<Rightarrow> (st, Inr s))"

text \<open>
  A tool object used for several calls: each call comes with the world it finds (other
  tools and the build scripts may have changed it in between); the tool object is
  threaded through. The result lists, per call, the retriever methods called.
\<close>

fun text_tool_calls :: "services \<Rightarrow> rag_tool \<Rightarrow> (world \<times> string \<times> int) list
    \<Rightarrow> rag_tool \<times> retriever_call list list" where
  "text_tool_calls sv t [] = (t, [])"
| "text_tool_calls sv t ((w, query, k) # rest) =
     (case RAGTextTool_run sv w t query k of
        ((w1, t1, calls), out) \<Rightarrow>
          (case text_tool_calls sv t1 rest of (t2, later) \<Rightarrow> (t2, calls # later)))"

fun image_tool_calls :: "services \<Rightarrow> rag_tool \<Rightarrow> (world \<times> string \<times> int) list
    \<Rightarrow> rag_tool \<times> retriever_call list list" where
  "image_tool_calls sv t [] = (t, [])"
| "image_tool_calls sv t ((w, image_path, k) # rest) =
     (case RAGImageTool_run sv w t image_path k of
        ((w1, t1, calls), out) \<Rightarrow>
          (case image_tool_calls sv t1 rest of (t2, later) \<Rightarrow> (t2, calls # later)))"

subsection \<open>The image question-answering tool\<close>

definition lower_char :: "char \<Rightarrow> char" where
  "lower_char c =
     (case map_of (zip ''ABCDEFGHIJKLMNOPQRSTUVWXYZ'' ''abcdefghijklmnopqrstuvwxyz'') c of
        None \<Rightarrow> c
      | Some l \<Rightarrow> l)"

definition lower :: "string \<Rightarrow> string" where
  "lower s = map lower_char s"

fun starts_with :: "string \<Rightarrow> string \<Rightarrow> bool" where
  "starts_with [] s = True"
| "starts_with (c # w) [] = False"
| "starts_with (c # w) (c' # s) = (c = c' \<and> starts_with w s)"

text \<open>\<^verbatim>\<open>word in s\<close> on strings.\<close>

fun contains :: "string \<Rightarrow> string \<Rightarrow> bool" where
  "contains w [] = (w = [])"
| "contains w (c # s) = (starts_with w (c # s) \<or> contains w s)"

definition any_word :: "string list \<Rightarrow> string \<Rightarrow> bool" where
  "any_word ws s = list_ex (\<lambda>w. contains w s) ws"

definition generate_answer_candidates :: "string \<Rightarrow> string list" where
  "generate_answer_candidates question =
     (let question_lower = lower question in
      if any_word [''cuisine'', ''type of food'', ''what kind''] question_lower then
        [''Italian cuisine'', ''Chinese cuisine'', ''Japanese cuisine'', ''Mexican cuisine'',
         ''Indian cuisine'', ''Thai cuisine'', ''French cuisine'', ''American cuisine'',
         ''Mediterranean cuisine'', ''Korean cuisine'', ''Vietnamese cuisine'', ''Greek cuisine'']
      else if any_word [''describe'', ''what is this'', ''what dish''] question_lower then
        [''a pizza'', ''a pasta dish'', ''a burger'', ''a salad'', ''a soup'',
         ''a sandwich'', ''a steak'', ''seafood'', ''a dessert'', ''a rice dish'',
         ''noodles'', ''a vegetable dish'', ''fried food'', ''grilled food'', ''baked food'']
      else if any_word [''ingredient'', ''what'' @ [CHR 0x27] @ ''s in'', ''contains''] question_lower then
        [''vegetables'', ''meat'', ''seafood'', ''cheese'', ''pasta'', ''rice'',
         ''bread'', ''sauce'', ''herbs'', ''spices'', ''chicken'', ''beef'',
         ''pork'', ''fish'', ''tofu'', ''eggs'', ''mushrooms'', ''tomatoes'']
      else if any_word [''setting'', ''dining'', ''atmosphere'', ''ambiance''] question_lower then
        [''formal dining'', ''casual dining'', ''fast food'', ''fine dining'',
         ''outdoor seating'', ''indoor seating'', ''modern decor'', ''traditional decor'',
         ''cozy atmosphere'', ''elegant setting'']
      else if any_word [''protein'', ''main ingredient''] question_lower then
        [''chicken'', ''beef'', ''pork'', ''fish'', ''shrimp'', ''tofu'',
         ''lamb'', ''turkey'', ''duck'', ''seafood'', ''no protein (vegetarian)'']
      else
        [''yes'', ''no'', ''possibly'', ''likely'', ''unlikely'',
         ''a food dish'', ''a restaurant setting'', ''a beverage'',
         ''multiple items'', ''unclear from image''])"

text \<open>
  \<^verbatim>\<open>torch.topk\<close>: the \<open>k\<close> largest values with their positions, largest first; it
  raises when there are fewer than \<open>k\<close> values.
\<close>

definition topk :: "real list \<Rightarrow> nat \<Rightarrow> py_exception + (real \<times> nat) list" where
  "topk probs k =
     (if length probs < k then Inl RuntimeError
      else Inr (take k (sort_key (\<lambda>p. - fst p) (zip probs [0..<length probs]))))"

definition answer_line :: "services \<Rightarrow> string list \<Rightarrow> string \<times> real \<times> nat \<Rightarrow> py_exception + string" where
  "answer_line sv candidates entry =
     (case entry of
        (i, prob, idx) \<Rightarrow>
          (case py_getitem candidates (int idx) of
             Inl e \<Rightarrow> Inl e
           | Inr answer \<Rightarrow>
               Inr (i @ ''. '' @ answer @ '' (confidence: '' @ fmt_1f sv (prob * 100) @ ''%)''
                    @ [newline])))"

text \<open>
  The body of the \<^verbatim>\<open>try\<close> block of \<^verbatim>\<open>ImageQATool._run\<close>. The processor, the model and
  the softmax are the service \<open>clip_probs\<close>; at most three answers are listed, so the
  numbering runs from 1 to 3.
\<close>

definition ImageQATool_try :: "services \<Rightarrow> string \<Rightarrow> string \<Rightarrow> py_exception + string" where
  "ImageQATool_try sv image_path question =
     (case image_open sv image_path of
        Inl e \<Rightarrow> Inl e
      | Inr img \<Rightarrow>
          (let candidates = generate_answer_candidates question in
           case clip_probs sv img candidates of
             Inl e \<Rightarrow> Inl e
           | Inr probs \<Rightarrow>
               (case topk probs (min 3 (length candidates)) of
                  Inl e \<Rightarrow> Inl e
                | Inr top_entries \<Rightarrow>
                    (case comprehension (answer_line sv candidates) (zip [''1'', ''2'', ''3''] top_entries) of
                       Inl e \<Rightarrow> Inl e
                     | Inr answer_lines \<Rightarrow>
                         (case top_entries of
                            [] \<Rightarrow> Inl IndexError
                          | (best_prob, best_idx) # rest \<Rightarrow>
                              (case py_getitem candidates (int best_idx) of
                                 Inl e \<Rightarrow> Inl e
                               | Inr best_answer \<Rightarrow>
                                   Inr (''Question: '' @ question @ [newline, newline]
                                        @ ''Answer based on image analysis:'' @ [newline]
                                        @ concat answer_lines
                                        @ (if best_prob * 100 > 50
                                           then newline # ''Most likely: '' @ best_answer
                                           else newline # ''Note: Low confidence in all answers. The image may not clearly show the requested information.''))))))))"

definition ImageQATool_run :: "services \<Rightarrow> string \<Rightarrow> string \<Rightarrow> py_exception + string" where
  "ImageQATool_run sv image_path question =
     (case ImageQATool_try sv image_path question of
        Inl e \<Rightarrow>
          (if is_Exception e
           then Inr (''Error analyzing image: '' @ str_exc sv e @ [newline, newline]
                     @ ''Details:'' @ [newline] @ format_exc sv e)
           else Inl e)
      | Inr s \<Rightarrow> Inr s)"

subsection \<open>The agent: messages, reasoning step and routing\<close>

datatype tool_call = ToolCall (call_name: string) (call_args: "(string \<times> string) list") (call_id: string)

datatype message =
    SystemMessage string
  | HumanMessage string
  | AIMessage string "tool_call list"
  | ToolMessage string string

fun is_SystemMessage :: "message \<Rightarrow> bool" where
  "is_SystemMessage (SystemMessage c) = True"
| "is_SystemMessage m = False"

fun is_ToolMessage :: "message \<Rightarrow> bool" where
  "is_ToolMessage (ToolMessage c i) = True"
| "is_ToolMessage m = False"

text \<open>The attribute \<^verbatim>\<open>tool_calls\<close>, which only assistant messages have.\<close>

fun tool_calls :: "message \<Rightarrow> tool_call list option" where
  "tool_calls (AIMessage c tcs) = Some tcs"
| "tool_calls m = None"

definition should_continue :: "message list \<Rightarrow> py_exception + string" where
  "should_continue messages =
     (case py_getitem messages (- 1) of
        Inl e \<Rightarrow> Inl e
      | Inr last_message \<Rightarrow>
          (case tool_calls last_message of
             None \<Rightarrow> Inr ''end''
           | Some tcs \<Rightarrow> if tcs \<noteq> [] then Inr ''tools'' else Inr ''end''))"

text \<open>
  The language model with the tools bound is a parameter: from the messages it is
  invoked on it returns the content and the tool calls of an assistant message, or
  raises.
\<close>

type_synonym chat_model = "message list \<Rightarrow> py_exception + string \<times> tool_call list"

text \<open>The test of \<^verbatim>\<open>_call_model\<close> and the message list the model is invoked on.\<close>

definition needs_system_prompt :: "message list \<Rightarrow> bool" where
  "needs_system_prompt messages = (length messages = 1 \<or> \<not> list_ex is_SystemMessage messages)"

definition model_input :: "string \<Rightarrow> message list \<Rightarrow> message list" where
  "model_input system_prompt messages =
     (if needs_system_prompt messages then SystemMessage system_prompt # messages else messages)"

text \<open>\<open>call_model\<close> returns the state update: the one response message.\<close>

definition call_model :: "chat_model \<Rightarrow> string \<Rightarrow> message list \<Rightarrow> py_exception + message list" where
  "call_model model system_prompt messages =
     (case model (model_input system_prompt messages) of
        Inl e \<Rightarrow> Inl e
      | Inr (content, tcs) \<Rightarrow> Inr [AIMessage content tcs])"

subsection \<open>The agent: the graph\<close>

text \<open>
  The graph of \<^verbatim>\<open>build_graph\<close>: the entry edge leads to the node \<open>Agent\<close>, the
  conditional edge maps the label of \<open>should_continue\<close> to the next node, and the node
  \<open>Tools\<close> leads back to \<open>Agent\<close>. The state is the message list; a node's update is
  appended to it.
\<close>

datatype node = Agent | Tools | END

definition route :: "string \<Rightarrow> node" where
  "route label = (if label = ''tools'' then Tools else END)"

text \<open>
  The prebuilt tool node runs the tool calls of the last message in the order they were
  requested and answers each with a tool message carrying the call's identity. The
  tools themselves are the parameter \<open>exec\<close>, which threads a state of its own.
\<close>

type_synonym 's tool_executor = "tool_call \<Rightarrow> 's \<Rightarrow> 's \<times> string"

definition requested_calls :: "message list \<Rightarrow> tool_call list" where
  "requested_calls messages =
     (case py_getitem messages (- 1) of
        Inl e \<Rightarrow> []
      | Inr last_message \<Rightarrow> (case tool_calls last_message of None \<Rightarrow> [] | Some tcs \<Rightarrow> tcs))"

fun run_tool_calls :: "'s tool_executor \<Rightarrow> tool_call list \<Rightarrow> 's \<Rightarrow> 's \<times> message list" where
  "run_tool_calls exec [] s = (s, [])"
| "run_tool_calls exec (c # cs) s =
     (case exec c s of
        (s1, observation) \<Rightarrow>
          (case run_tool_calls exec cs s1 of
             (s2, ms) \<Rightarrow> (s2, ToolMessage observation (call_id c) # ms)))"

definition tool_node :: "'s tool_executor \<Rightarrow> 's \<Rightarrow> message list \<Rightarrow> 's \<times> message list" where
  "tool_node exec s messages = run_tool_calls exec (requested_calls messages) s"

text \<open>
  A run records its steps: a reasoning step with whether the system prompt was
  prepended and the messages the model was invoked on, an acting step with the calls it
  executed.
\<close>

datatype step = Reasoning bool "message list" | Acting "tool_call list"

datatype outcome = Finished "message list" | Raised py_exception | OutOfSteps

text \<open>
  The source sets no bound on the loop, so the run takes the number of node executions
  it may make; \<open>OutOfSteps\<close> is a run that needs more.
\<close>

fun run_graph :: "nat \<Rightarrow> chat_model \<Rightarrow> string \<Rightarrow> 's tool_executor \<Rightarrow> node \<Rightarrow> 's \<Rightarrow> message list
    \<Rightarrow> outcome \<times> 's \<times> step list" where
  "run_graph fuel model sp exec END s msgs = (Finished msgs, s, [])"
| "run_graph 0 model sp exec Agent s msgs = (OutOfSteps, s, [])"
| "run_graph 0 model sp exec Tools s msgs = (OutOfSteps, s, [])"
| "run_graph (Suc n) model sp exec Agent s msgs =
     (case call_model model sp msgs of
        Inl e \<Rightarrow> (Raised e, s, [Reasoning (needs_system_prompt msgs) (model_input sp msgs)])
      | Inr update \<Rightarrow>
          (case should_continue (msgs @ update) of
             Inl e \<Rightarrow> (Raised e, s, [Reasoning (needs_system_prompt msgs) (model_input sp msgs)])
           | Inr label \<Rightarrow>
               (case run_graph n model sp exec (route label) s (msgs @ update) of
                  (out, s1, steps) \<Rightarrow>
                    (out, s1, Reasoning (needs_system_prompt msgs) (model_input sp msgs) # steps))))"
| "run_graph (Suc n) model sp exec Tools s msgs =
     (case tool_node exec s msgs of
        (s1, observations) \<Rightarrow>
          (case run_graph n model sp exec Agent s1 (msgs @ observations) of
             (out, s2, steps) \<Rightarrow> (out, s2, Acting (requested_calls msgs) # steps)))"

text \<open>\<open>run\<close> and \<open>stream\<close> start the graph on the state holding the user's query.\<close>

definition run :: "chat_model \<Rightarrow> string \<Rightarrow> 's tool_executor \<Rightarrow> nat \<Rightarrow> 's \<Rightarrow> string
    \<Rightarrow> outcome \<times> 's \<times> step list" where
  "run model sp exec fuel s query = run_graph fuel model sp exec Agent s [HumanMessage query]"

fun injected :: "step \<Rightarrow> bool" where
  "injected (Reasoning prepended ctx) = prepended"
| "injected (Acting tcs) = False"

text \<open>The number of reasoning steps of a run at which the system prompt was prepended.\<close>

definition injections :: "step list \<Rightarrow> nat" where
  "injections steps = length (filter injected steps)"

text \<open>
  A model that asks for one text search and answers once it sees a tool message, and
  tools that find nothing.
\<close>

definition demo_model :: chat_model where
  "demo_model messages =
     (if list_ex is_ToolMessage messages then Inr (''Try Luigi.'', [])
      else Inr ([], [ToolCall ''rag_text_search'' [(''query'', ''pizza'')] ''call_1'']))"

definition demo_executor :: "unit tool_executor" where
  "demo_executor c s = (s, ''No restaurants found matching your query.'')"

subsection \<open>Concrete services and index directories\<close>

text \<open>
  Inputs on which the definitions are evaluated: services that embed every query to the
  zero vector, a directory with no artifacts, one with the text artifacts only, and one
  with both pairs of artifacts (one record each).
\<close>

definition demo_services :: services where
  "demo_services =
     \<lparr>text_embed = (\<lambda>q. Inr (vector (replicate 768 0))),
      image_embed = (\<lambda>p. Inr (vector (replicate 512 0))),
      json_dumps = (\<lambda>rs. Inr ''[]''),
      str_exc = (\<lambda>e. ''error''),
      format_exc = (\<lambda>e. ''Traceback''),
      image_open = (\<lambda>p. Inl FileNotFoundError),
      clip_probs = (\<lambda>img cs. Inr []),
      fmt_1f = (\<lambda>x. ''0.0'')\<rparr>"

definition empty_dir :: index_dir where
  "empty_dir =
     \<lparr>text_index_faiss = Absent, text_metadata_pkl = Absent,
      image_index_faiss = Absent, image_metadata_pkl = Absent\<rparr>"

definition text_only_dir :: index_dir where
  "text_only_dir =
     \<lparr>text_index_faiss = Content (IndexFlatL2 768 [replicate 768 0]),
      text_metadata_pkl = Content [ [(''name'', PyStr ''A'')] ],
      image_index_faiss = Absent,
      image_metadata_pkl = Absent\<rparr>"

definition full_dir :: index_dir where
  "full_dir =
     \<lparr>text_index_faiss = Content (IndexFlatL2 768 [replicate 768 0]),
      text_metadata_pkl = Content [ [(''name'', PyStr ''A'')] ],
      image_index_faiss = Content (IndexFlatL2 512 [replicate 512 0]),
      image_metadata_pkl = Content [ [(''name'', PyStr ''A'')] ]\<rparr>"

definition demo_world :: "index_dir \<Rightarrow> world" where
  "demo_world fs = \<lparr>files = fs, objects = [], retriever = MultimodalRetriever_init\<rparr>"

definition loaded_tool :: rag_tool where
  "loaded_tool = \<lparr>has_retriever = True, indices_loaded = True\<rparr>"

text \<open>A model that answers at once, without asking for a tool.\<close>

definition direct_model :: chat_model where
  "direct_model messages = Inr (''Hello! What would you like to eat?'', [])"

text \<open>
  What holds of every step of a run started by \<open>run\<close>: a reasoning step prepends the
  system prompt, and the prompt is the only system message the model is invoked on.
\<close>

fun prompt_leads :: "string \<Rightarrow> step \<Rightarrow> bool" where
  "prompt_leads sp (Reasoning prepended ctx) =
     (prepended \<and> (\<exists>msgs. ctx = SystemMessage sp # msgs \<and> \<not> list_ex is_SystemMessage msgs))"
| "prompt_leads sp (Acting tcs) = True"

section \<open>Properties\<close>

subsection \<open>Helper lemmas: single precision\<close>

lemma exponent_from_eq:
  "e \<le> e' \<Longrightarrow> nat (e' - e) \<le> n \<Longrightarrow> (e < e' \<longrightarrow> 2 powi e' \<le> a) \<Longrightarrow> a < 2 powi (e' + 1)
     \<Longrightarrow> exponent_from n e a = e'"
proof (induction n arbitrary: e)
  case 0
  then show ?case by simp
next
  case (Suc n)
  show ?case
  proof (cases "a < 2 powi (e + 1)")
    case True
    have "e = e'"
    proof (rule ccontr)
      assume "e \<noteq> e'"
      with Suc.prems(1) have lt: "e < e'" by simp
      then have "(2::real) powi (e + 1) \<le> 2 powi e'" by (intro power_int_increasing) auto
      with True Suc.prems(3) lt show False by auto
    qed
    with True show ?thesis by simp
  next
    case False
    have lt: "e < e'"
    proof (rule ccontr)
      assume "\<not> e < e'"
      with Suc.prems(1) have "e = e'" by simp
      with False Suc.prems(4) show False by simp
    qed
    with Suc.prems have "exponent_from n (e + 1) a = e'"
      by (intro Suc.IH) auto
    with False show ?thesis by simp
  qed
qed

lemma f32_exponent_eq:
  "- 126 \<le> e \<Longrightarrow> e \<le> 127 \<Longrightarrow> (- 126 < e \<longrightarrow> 2 powi e \<le> a) \<Longrightarrow> a < 2 powi (e + 1)
     \<Longrightarrow> f32_exponent a = e"
  unfolding f32_exponent_def by (rule exponent_from_eq) auto

lemma float32_zero [simp]: "float32 0 = 0"
  by (simp add: float32_def)

lemma float32_minus: "float32 (- x) = - float32 x"
  by (simp add: float32_def sgn_minus)

lemma f32_exponent_one: "f32_exponent 1 = 0"
  by (rule f32_exponent_eq) auto

lemma float32_one [simp]: "float32 1 = 1"
  by (simp add: float32_def f32_exponent_one round_half_even_def power_int_minus)

lemma f32_exponent_near_one: "f32_exponent (1 + 1 / 2 ^ 30) = 0"
  by (rule f32_exponent_eq) auto

lemma round_half_even_down:
  "of_int m \<le> y \<Longrightarrow> y < of_int m + 1 / 2 \<Longrightarrow> round_half_even y = m"
proof -
  assume a: "of_int m \<le> y" "y < of_int m + 1 / 2"
  then have "\<lfloor>y\<rfloor> = m" by linarith
  with a show ?thesis by (simp add: round_half_even_def)
qed

lemma float32_eval:
  assumes "\<bar>x\<bar> < 2 ^ 128 - 2 ^ 103" and "f32_exponent \<bar>x\<bar> = e"
    and "round_half_even (\<bar>x\<bar> / 2 powi (e - 23)) = m"
  shows "float32 x = sgn x * of_int m * 2 powi (e - 23)"
  using assms by (simp add: float32_def)

lemma float32_near_one: "float32 (1 + 1 / 2 ^ 30) = 1"
proof -
  have a: "\<bar>1 + 1 / 2 ^ 30 :: real\<bar> = 1 + 1 / 2 ^ 30" by simp
  have lt: "\<bar>1 + 1 / 2 ^ 30 :: real\<bar> < 2 ^ 128 - 2 ^ 103" by simp
  have e: "f32_exponent \<bar>1 + 1 / 2 ^ 30\<bar> = 0" unfolding a by (rule f32_exponent_near_one)
  have r: "round_half_even (\<bar>1 + 1 / 2 ^ 30\<bar> / 2 powi (0 - 23)) = 8388608"
    unfolding a by (rule round_half_even_down) (simp_all add: power_int_minus)
  from float32_eval[OF lt e r] show ?thesis by (simp add: power_int_minus)
qed

lemma float32_near_one_numeral: "float32 (1073741825 / 1073741824) = 1"
  using float32_near_one by simp

lemma sqdist_self: "sqdist q q = 0"
proof -
  have "fold (\<lambda>(a, b) res. float32 (res + float32 (float32 (a - b) * float32 (a - b)))) (zip q q) 0 = 0"
    by (induction q) auto
  then show ?thesis by (simp add: sqdist_def)
qed

subsection \<open>Helper lemmas: arrays and sorting\<close>

lemma length_rows: "length (rows E) = shape E ! 0"
  by (simp add: rows_def)

lemma row_length:
  assumes "shape E = [n, d]" "wf_array E" "i < n"
  shows "length (rows E ! i) = d"
proof -
  have len: "length (data E) = n * d" using assms by (simp add: wf_array_def)
  have "(i + 1) * d \<le> n * d" using assms(3) by (intro mult_le_mono1) simp
  then have "d \<le> n * d - i * d" by (simp add: algebra_simps)
  with assms len show ?thesis by (simp add: rows_def)
qed

lemma shape_astype [simp]: "shape (astype_float32 a) = shape a"
  by (simp add: astype_float32_def)

lemma rows_astype: "rows (astype_float32 a) = map (map float32) (rows a)"
  by (simp add: rows_def astype_float32_def take_map drop_map)

text \<open>A strict, unique minimum of the key is the first element after sorting.\<close>

lemma sort_key_unique_min:
  assumes "x \<in> set xs" and "\<forall>y\<in>set xs. y \<noteq> x \<longrightarrow> f x < f y"
  shows "take 1 (sort_key f xs) = [x]"
proof -
  let ?ys = "sort_key f xs"
  from assms(1) have ne: "?ys \<noteq> []" by (metis empty_iff list.set(1) set_sort)
  then obtain h t where ht: "?ys = h # t" by (cases ?ys) auto
  have "sorted (map f ?ys)" by simp
  with ht have le: "\<forall>z\<in>set ?ys. f h \<le> f z" by auto
  have hin: "h \<in> set xs" using ht by (metis list.set_intros(1) set_sort)
  have "x \<in> set ?ys" using assms(1) by simp
  with le have "f h \<le> f x" by blast
  with assms(2) hin have "h = x" by force
  with ht show ?thesis by simp
qed

lemma knn_unique_hit:
  assumes "i < length xb" and "sqdist q (xb ! i) = 0"
    and "\<forall>j<length xb. j \<noteq> i \<longrightarrow> 0 < sqdist q (xb ! j)"
  shows "knn xb [0..<length xb] q 1 = [(0, int i)]"
proof -
  let ?f = "\<lambda>j. (sqdist q (xb ! j), int j)"
  have mem: "(0, int i) \<in> set (map ?f [0..<length xb])"
    using assms(1,2) by (auto simp: image_iff intro!: bexI[of _ i])
  have min: "\<forall>y\<in>set (map ?f [0..<length xb]). y \<noteq> (0, int i) \<longrightarrow> fst (0::real, int i) < fst y"
  proof
    fix y assume "y \<in> set (map ?f [0..<length xb])"
    then obtain j where j: "j < length xb" "y = ?f j" by auto
    show "y \<noteq> (0, int i) \<longrightarrow> fst (0::real, int i) < fst y"
    proof
      assume ne: "y \<noteq> (0, int i)"
      have "j \<noteq> i" using ne j assms(2) by auto
      with assms(3) j have "0 < sqdist q (xb ! j)" by auto
      with j show "fst (0::real, int i) < fst y" by simp
    qed
  qed
  have "take 1 (sort_key fst (map ?f [0..<length xb])) = [(0, int i)]"
    using sort_key_unique_min[OF mem min] .
  then show ?thesis by (simp add: knn_def)
qed

subsection \<open>Helper lemmas: the effect of \<open>add\<close>\<close>









lemma add_fresh_flat:
  assumes "shape E = [n, d]" "length M = n"
  shows "add km (FAISSIndex_init d ''Flat'') E M =
     (\<lparr>dimension = d, index_type = ''Flat'',
       index = Some (IndexFlatL2 d (rows (astype_float32 E))), metadata = M\<rparr>,
      Inr ())"
  using assms by (simp add: add_def FAISSIndex_init_def create_index_def ndim_def)

subsection \<open>The vector index\<close>

text \<open>
  Claim C1, as the code has it. Let \<open>E\<close> be a rank-2 array of \<open>n\<close> vectors of width \<open>d\<close>
  whose entries lie within the single-precision range, and \<open>M\<close> a list of \<open>n\<close> metadata
  records. Adding \<open>E\<close> and \<open>M\<close> to a fresh flat index of dimension \<open>d\<close> succeeds. For a
  row of \<open>E\<close> whose single-precision cast is at nonzero computed distance from the cast
  of every other row, searching afterwards for that row with \<open>k = 1\<close> returns exactly the
  record inserted with it (at distance 0).
\<close>

theorem add_then_search_exact:
  assumes "shape E = [n, d]" and "wf_array E" and "length M = n" and "i < n"
    and "\<forall>x\<in>set (data E). \<bar>x\<bar> < 2 ^ 128 - 2 ^ 103"
    and "\<forall>j<n. j \<noteq> i \<longrightarrow>
           0 < sqdist (rows (astype_float32 E) ! i) (rows (astype_float32 E) ! j)"
  shows "\<exists>s'. add km (FAISSIndex_init d ''Flat'') E M = (s', Inr ())
           \<and> search s' (vector (rows E ! i)) 1 = Inr ([0], [M ! i])"
proof -
  let ?xb = "rows (astype_float32 E)"
  let ?s = "\<lparr>dimension = d, index_type = ''Flat'', index = Some (IndexFlatL2 d ?xb),
             metadata = M\<rparr>"
  let ?q = "map float32 (rows E ! i)"
  have a: "add km (FAISSIndex_init d ''Flat'') E M = (?s, Inr ())"
    using assms(1,3) by (rule add_fresh_flat)
  have n: "length ?xb = n" using assms(1) by (simp add: length_rows)
  have nr: "length (rows E) = n" using assms(1) by (simp add: length_rows)
  have qi: "?xb ! i = ?q" using assms(4) nr by (simp add: rows_astype)
  have lq: "length ?q = d" using row_length[OF assms(1,2,4)] by simp
  have hit: "sqdist ?q (?xb ! i) = 0" unfolding qi by (rule sqdist_self)
  have others: "\<forall>j<length ?xb. j \<noteq> i \<longrightarrow> 0 < sqdist ?q (?xb ! j)"
    using assms(6) n qi by simp
  have k: "knn ?xb [0..<length ?xb] ?q 1 = [(0, int i)]"
    using knn_unique_hit[of i ?xb ?q] assms(4) n hit others by simp
  have fs: "faiss_search (IndexFlatL2 d ?xb) ?q 1 = Inr ([0], [int i])"
    using k lq by (simp add: faiss_search_def)
  have "search ?s (vector (rows E ! i)) 1 = Inr ([0], [M ! i])"
    using fs assms(3,4) by (simp add: search_def vector_def astype_float32_def py_getitem_def)
  with a show ?thesis by blast
qed

lemma demo_separation:
  "sqdist (rows (astype_float32 \<lparr>shape = [2, 2], data = [0, 0, 1, 0]\<rparr>) ! 1)
          (rows (astype_float32 \<lparr>shape = [2, 2], data = [0, 0, 1, 0]\<rparr>) ! 0) = 1"
  by (simp add: rows_def upt_rec sqdist_def astype_float32_def)

theorem add_then_search_exact_witness:
  "shape \<lparr>shape = [2, 2], data = [0, 0, 1, 0]\<rparr> = [2, 2]
   \<and> wf_array \<lparr>shape = [2, 2], data = [0, 0, 1, 0]\<rparr>
   \<and> length [''a'', ''b''] = 2 \<and> (1::nat) < 2
   \<and> 0 < sqdist (rows (astype_float32 \<lparr>shape = [2, 2], data = [0, 0, 1, 0]\<rparr>) ! 1)
                 (rows (astype_float32 \<lparr>shape = [2, 2], data = [0, 0, 1, 0]\<rparr>) ! 0)
   \<and> (\<exists>s'. add take (FAISSIndex_init 2 ''Flat'') \<lparr>shape = [2, 2], data = [0, 0, 1, 0]\<rparr>
               [''a'', ''b''] = (s', Inr ())
           \<and> search s' (vector (rows \<lparr>shape = [2, 2], data = [0, 0, 1, 0]\<rparr> ! 1)) 1
               = Inr ([0], [ [''a'', ''b''] ! 1]))"
proof -
  let ?E = "\<lparr>shape = [2, 2], data = [0, 0, 1, 0]\<rparr>"
  have h1: "shape ?E = [2, 2]" by simp
  have h2: "wf_array ?E" by (simp add: wf_array_def)
  have h3: "length [''a'', ''b''] = 2" by simp
  have h4: "(1::nat) < 2" by simp
  have h5: "\<forall>x\<in>set (data ?E). \<bar>x\<bar> < 2 ^ 128 - 2 ^ 103" by simp
  have sep: "0 < sqdist (rows (astype_float32 ?E) ! 1) (rows (astype_float32 ?E) ! 0)"
    using demo_separation by linarith
  have h6: "\<forall>j<2. j \<noteq> 1 \<longrightarrow> 0 < sqdist (rows (astype_float32 ?E) ! 1) (rows (astype_float32 ?E) ! j)"
  proof (intro allI impI)
    fix j :: nat assume "j < 2" "j \<noteq> 1"
    then have "j = 0" by simp
    with sep show "0 < sqdist (rows (astype_float32 ?E) ! 1) (rows (astype_float32 ?E) ! j)" by simp
  qed
  from add_then_search_exact[OF h1 h2 h3 h4 h5 h6, of take] h1 h2 h3 h4 sep
  show ?thesis by blast
qed

text \<open>
  The claim as stated fails for rows that differ only beyond single precision: \<open>1\<close> and
  \<open>1 + 2 ^ -30\<close> are two different rows, both are stored as \<open>1\<close>, and the search for
  either of them returns the record of the first.
\<close>

theorem add_then_search_float32_counterexample:
  "distinct (rows \<lparr>shape = [2, 1], data = [1, 1 + 1 / 2 ^ 30]\<rparr>)
   \<and> length [''a'', ''b''] = 2
   \<and> snd (add take (FAISSIndex_init 1 ''Flat'') \<lparr>shape = [2, 1], data = [1, 1 + 1 / 2 ^ 30]\<rparr>
            [''a'', ''b'']) = Inr ()
   \<and> search (fst (add take (FAISSIndex_init 1 ''Flat'')
                    \<lparr>shape = [2, 1], data = [1, 1 + 1 / 2 ^ 30]\<rparr> [''a'', ''b'']))
        (vector (rows \<lparr>shape = [2, 1], data = [1, 1 + 1 / 2 ^ 30]\<rparr> ! 0)) 1 = Inr ([0], [''a''])
   \<and> search (fst (add take (FAISSIndex_init 1 ''Flat'')
                    \<lparr>shape = [2, 1], data = [1, 1 + 1 / 2 ^ 30]\<rparr> [''a'', ''b'']))
        (vector (rows \<lparr>shape = [2, 1], data = [1, 1 + 1 / 2 ^ 30]\<rparr> ! 1)) 1 = Inr ([0], [''a''])
   \<and> [''a'', ''b''] ! 1 = ''b''"
  by (simp add: add_def FAISSIndex_init_def create_index_def ndim_def rows_def upt_rec
      astype_float32_def search_def vector_def faiss_search_def knn_def sqdist_def py_getitem_def
      float32_near_one_numeral)

text \<open>
  Claim C2, evaluated on the code. An index holding one entry, searched with \<open>k = 2\<close>,
  returns two results: the library pads the labels with \<open>-1\<close>, the label passes the test
  \<^verbatim>\<open>idx < len(self.metadata)\<close>, and \<^verbatim>\<open>self.metadata[-1]\<close> is the last record. The one
  stored record is returned twice.
\<close>

theorem search_pads_with_last_record:
  "search (fst (add take (FAISSIndex_init 1 ''Flat'') \<lparr>shape = [1, 1], data = [0]\<rparr> [''a'']))
          (vector [0]) 2 = Inr ([0, FLT_MAX], [''a'', ''a''])"
  by (simp add: add_def FAISSIndex_init_def create_index_def ndim_def rows_def search_def
      astype_float32_def vector_def faiss_search_def knn_def sqdist_def py_getitem_def)

text \<open>
  Claim C3, evaluated on the code. Searching a flat index that holds no entries raises
  \<open>IndexError\<close>: the padding label \<open>-1\<close> passes the test and \<^verbatim>\<open>self.metadata[-1]\<close> is out
  of range on the empty list.
\<close>

theorem search_empty_index_raises:
  "search (fst (add take (FAISSIndex_init 1 ''Flat'') \<lparr>shape = [0, 1], data = []\<rparr>
                 ([] :: string list)))
          (vector [0]) 1 = Inl IndexError"
  by (simp add: add_def FAISSIndex_init_def create_index_def ndim_def rows_def search_def
      astype_float32_def vector_def faiss_search_def knn_def sqdist_def py_getitem_def)




subsection \<open>The retriever\<close>








text \<open>
  Claim C6, evaluated on the code. After loading both indices (one record each), the
  record stored in the image index is \<open>{name: A}\<close>. One \<open>search_image\<close> call later the
  same stored record also carries the keys \<open>distance\<close> and \<open>similarity\<close>: the results are
  references to the stored dictionaries, and the loop assigns through them.
\<close>

theorem search_image_mutates_stored_metadata:
  "deref (fst (fst (load_indices full_dir [] MultimodalRetriever_init)))
         (metadata (image_index (snd (fst (load_indices full_dir [] MultimodalRetriever_init)))))
     = [ [(''name'', PyStr ''A'')] ]
   \<and> deref (fst (search_image demo_services
                  (fst (fst (load_indices full_dir [] MultimodalRetriever_init)))
                  (snd (fst (load_indices full_dir [] MultimodalRetriever_init))) ''photo.jpg'' 1))
         (metadata (image_index (snd (fst (load_indices full_dir [] MultimodalRetriever_init)))))
     = [ [(''name'', PyStr ''A''), (''distance'', PyFloat 0), (''similarity'', PyFloat 1)] ]"
  by (simp add: load_indices_def full_dir_def load_def MultimodalRetriever_init_def
      FAISSIndex_init_def deref_def search_image_def demo_services_def search_def vector_def
      astype_float32_def faiss_search_def knn_def sqdist_self py_getitem_def)

subsection \<open>The tools\<close>

text \<open>
  Claim C5. In each of the three tools, whenever the body of the \<^verbatim>\<open>try\<close> block (index
  loading, embedding, search, scoring, file access, encoding of the results) raises an
  instance of \<^verbatim>\<open>Exception\<close>, the run method returns the textual error payload built
  from it. A run method therefore always returns a string, unless what was raised is
  not an \<^verbatim>\<open>Exception\<close> at all (\<open>KeyboardInterrupt\<close>, \<open>SystemExit\<close>).
\<close>

theorem tools_contain_exceptions:
  "(snd (RAGTextTool_try sv w t q k) = Inl e \<and> is_Exception e \<longrightarrow>
      snd (RAGTextTool_run sv w t q k)
        = Inr (''Error retrieving restaurants: '' @ str_exc sv e @ [newline, newline]
               @ ''Details:'' @ [newline] @ format_exc sv e))
   \<and> ((\<exists>s. snd (RAGTextTool_run sv w t q k) = Inr s)
        \<or> (\<exists>x. snd (RAGTextTool_run sv w t q k) = Inl x \<and> \<not> is_Exception x))
   \<and> (snd (RAGImageTool_try sv w t p k) = Inl e \<and> is_Exception e \<longrightarrow>
      snd (RAGImageTool_run sv w t p k)
        = Inr (''Error retrieving similar restaurants: '' @ str_exc sv e @ [newline, newline]
               @ ''Details:'' @ [newline] @ format_exc sv e))
   \<and> ((\<exists>s. snd (RAGImageTool_run sv w t p k) = Inr s)
        \<or> (\<exists>x. snd (RAGImageTool_run sv w t p k) = Inl x \<and> \<not> is_Exception x))
   \<and> (ImageQATool_try sv p question = Inl e \<and> is_Exception e \<longrightarrow>
      ImageQATool_run sv p question
        = Inr (''Error analyzing image: '' @ str_exc sv e @ [newline, newline]
               @ ''Details:'' @ [newline] @ format_exc sv e))
   \<and> ((\<exists>s. ImageQATool_run sv p question = Inr s)
        \<or> (\<exists>x. ImageQATool_run sv p question = Inl x \<and> \<not> is_Exception x))"
proof (intro conjI)
  show "snd (RAGTextTool_try sv w t q k) = Inl e \<and> is_Exception e \<longrightarrow>
      snd (RAGTextTool_run sv w t q k)
        = Inr (''Error retrieving restaurants: '' @ str_exc sv e @ [newline, newline]
               @ ''Details:'' @ [newline] @ format_exc sv e)"
    by (cases "RAGTextTool_try sv w t q k") (auto simp: RAGTextTool_run_def)
  show "(\<exists>s. snd (RAGTextTool_run sv w t q k) = Inr s)
        \<or> (\<exists>x. snd (RAGTextTool_run sv w t q k) = Inl x \<and> \<not> is_Exception x)"
    by (cases "RAGTextTool_try sv w t q k") (auto simp: RAGTextTool_run_def split: sum.splits)
  show "snd (RAGImageTool_try sv w t p k) = Inl e \<and> is_Exception e \<longrightarrow>
      snd (RAGImageTool_run sv w t p k)
        = Inr (''Error retrieving similar restaurants: '' @ str_exc sv e @ [newline, newline]
               @ ''Details:'' @ [newline] @ format_exc sv e)"
    by (cases "RAGImageTool_try sv w t p k") (auto simp: RAGImageTool_run_def)
  show "(\<exists>s. snd (RAGImageTool_run sv w t p k) = Inr s)
        \<or> (\<exists>x. snd (RAGImageTool_run sv w t p k) = Inl x \<and> \<not> is_Exception x)"
    by (cases "RAGImageTool_try sv w t p k") (auto simp: RAGImageTool_run_def split: sum.splits)
  show "ImageQATool_try sv p question = Inl e \<and> is_Exception e \<longrightarrow>
      ImageQATool_run sv p question
        = Inr (''Error analyzing image: '' @ str_exc sv e @ [newline, newline]
               @ ''Details:'' @ [newline] @ format_exc sv e)"
    by (auto simp: ImageQATool_run_def)
  show "(\<exists>s. ImageQATool_run sv p question = Inr s)
        \<or> (\<exists>x. ImageQATool_run sv p question = Inl x \<and> \<not> is_Exception x)"
    by (auto simp: ImageQATool_run_def split: sum.splits)
qed

lemma try_text_empty:
  "snd (RAGTextTool_try demo_services (demo_world empty_dir) (RAGTool_init True) ''pizza'' 5) = Inl FileNotFoundError"
  by (simp add: RAGTextTool_try_def load_once_def RAGTool_init_def demo_world_def load_indices_def empty_dir_def)

lemma try_image_empty:
  "snd (RAGImageTool_try demo_services (demo_world empty_dir) (RAGTool_init True) ''photo.jpg'' 5) = Inl FileNotFoundError"
  by (simp add: RAGImageTool_try_def load_once_def RAGTool_init_def demo_world_def load_indices_def empty_dir_def)

lemma try_qa: "ImageQATool_try demo_services ''photo.jpg'' ''What cuisine is this?'' = Inl FileNotFoundError"
  by (simp add: ImageQATool_try_def demo_services_def)

theorem tools_contain_exceptions_witness:
  "snd (RAGTextTool_try demo_services (demo_world empty_dir) (RAGTool_init True) ''pizza'' 5)
     = Inl FileNotFoundError
   \<and> snd (RAGImageTool_try demo_services (demo_world empty_dir) (RAGTool_init True) ''photo.jpg'' 5)
     = Inl FileNotFoundError
   \<and> ImageQATool_try demo_services ''photo.jpg'' ''What cuisine is this?'' = Inl FileNotFoundError
   \<and> is_Exception FileNotFoundError
   \<and> snd (RAGTextTool_run demo_services (demo_world empty_dir) (RAGTool_init True) ''pizza'' 5)
     = Inr (''Error retrieving restaurants: error'' @ [newline, newline] @ ''Details:'' @ [newline]
            @ ''Traceback'')
   \<and> snd (RAGImageTool_run demo_services (demo_world empty_dir) (RAGTool_init True) ''photo.jpg'' 5)
     = Inr (''Error retrieving similar restaurants: error'' @ [newline, newline] @ ''Details:''
            @ [newline] @ ''Traceback'')
   \<and> ImageQATool_run demo_services ''photo.jpg'' ''What cuisine is this?''
     = Inr (''Error analyzing image: error'' @ [newline, newline] @ ''Details:'' @ [newline]
            @ ''Traceback'')"
proof -
  note t = tools_contain_exceptions[of demo_services "demo_world empty_dir" "RAGTool_init True"
      "''pizza''" 5 FileNotFoundError "''photo.jpg''" "''What cuisine is this?''"]
  have s: "str_exc demo_services FileNotFoundError = ''error''"
     "format_exc demo_services FileNotFoundError = ''Traceback''"
    by (simp_all add: demo_services_def)
  from t try_text_empty try_image_empty try_qa s show ?thesis by simp
qed

lemma load_once_effect:
  assumes "load_once w t = ((w1, t1, calls), r)"
  shows "has_retriever t1 = has_retriever t"
    and "indices_loaded t \<Longrightarrow> indices_loaded t1 \<and> calls = []"
    and "\<not> has_retriever t \<Longrightarrow> calls = [] \<and> t1 = t"
    and "\<not> indices_loaded t \<Longrightarrow> has_retriever t \<Longrightarrow>
          calls = [LoadIndices]
          \<and> (indices_loaded t1 \<longleftrightarrow> snd (load_indices (files w) (objects w) (retriever w)) = Inr ())
          \<and> (r = Inr () \<longleftrightarrow> snd (load_indices (files w) (objects w) (retriever w)) = Inr ())"
  using assms by (auto simp: load_once_def split: if_splits prod.splits sum.splits)

lemma text_run_effect:
  assumes "RAGTextTool_run sv w t q k = ((w1, t1, calls), out)"
  shows "has_retriever t1 = has_retriever t"
    and "indices_loaded t \<Longrightarrow> indices_loaded t1 \<and> LoadIndices \<notin> set calls"
    and "\<not> indices_loaded t \<Longrightarrow> has_retriever t \<Longrightarrow>
          (\<exists>rest. calls = LoadIndices # rest \<and> LoadIndices \<notin> set rest)
          \<and> (indices_loaded t1 \<longleftrightarrow> snd (load_indices (files w) (objects w) (retriever w)) = Inr ())"
proof -
  obtain w0 t0 c0 r0 where lo: "load_once w t = ((w0, t0, c0), r0)"
    by (metis prod.exhaust)
  note eff = load_once_effect[OF lo]
  have shape: "t1 = t0 \<and> (calls = c0 \<or> calls = c0 @ [SearchText])"
    using assms lo
    by (auto simp: RAGTextTool_run_def RAGTextTool_try_def split: if_splits prod.splits sum.splits)
  show "has_retriever t1 = has_retriever t" using shape eff(1) by simp
  show "indices_loaded t \<Longrightarrow> indices_loaded t1 \<and> LoadIndices \<notin> set calls"
    using shape eff(2) by auto
  show "\<not> indices_loaded t \<Longrightarrow> has_retriever t \<Longrightarrow>
          (\<exists>rest. calls = LoadIndices # rest \<and> LoadIndices \<notin> set rest)
          \<and> (indices_loaded t1 \<longleftrightarrow> snd (load_indices (files w) (objects w) (retriever w)) = Inr ())"
    using shape eff(4) by auto
qed

lemma image_run_effect:
  assumes "RAGImageTool_run sv w t q k = ((w1, t1, calls), out)"
  shows "has_retriever t1 = has_retriever t"
    and "indices_loaded t \<Longrightarrow> indices_loaded t1 \<and> LoadIndices \<notin> set calls"
    and "\<not> indices_loaded t \<Longrightarrow> has_retriever t \<Longrightarrow>
          (\<exists>rest. calls = LoadIndices # rest \<and> LoadIndices \<notin> set rest)
          \<and> (indices_loaded t1 \<longleftrightarrow> snd (load_indices (files w) (objects w) (retriever w)) = Inr ())"
proof -
  obtain w0 t0 c0 r0 where lo: "load_once w t = ((w0, t0, c0), r0)"
    by (metis prod.exhaust)
  note eff = load_once_effect[OF lo]
  have shape: "t1 = t0 \<and> (calls = c0 \<or> calls = c0 @ [SearchImage])"
    using assms lo
    by (auto simp: RAGImageTool_run_def RAGImageTool_try_def split: if_splits prod.splits sum.splits)
  show "has_retriever t1 = has_retriever t" using shape eff(1) by simp
  show "indices_loaded t \<Longrightarrow> indices_loaded t1 \<and> LoadIndices \<notin> set calls"
    using shape eff(2) by auto
  show "\<not> indices_loaded t \<Longrightarrow> has_retriever t \<Longrightarrow>
          (\<exists>rest. calls = LoadIndices # rest \<and> LoadIndices \<notin> set rest)
          \<and> (indices_loaded t1 \<longleftrightarrow> snd (load_indices (files w) (objects w) (retriever w)) = Inr ())"
    using shape eff(4) by auto
qed

lemma text_tool_calls_loaded:
  "indices_loaded t \<Longrightarrow> text_tool_calls sv t cs = (t', lg) \<Longrightarrow>
     indices_loaded t' \<and> (\<forall>c\<in>set lg. LoadIndices \<notin> set c)"
proof (induction cs arbitrary: t t' lg)
  case Nil
  then show ?case by simp
next
  case (Cons c cs)
  obtain w q k where c: "c = (w, q, k)" by (cases c) auto
  obtain w1 t1 calls out where r: "RAGTextTool_run sv w t q k = ((w1, t1, calls), out)"
    by (metis prod.exhaust)
  obtain t2 later where l: "text_tool_calls sv t1 cs = (t2, later)" by (metis prod.exhaust)
  from text_run_effect(2)[OF r Cons.prems(1)] have t1: "indices_loaded t1" "LoadIndices \<notin> set calls"
    by auto
  from Cons.IH[OF t1(1) l] have ih: "indices_loaded t2" "\<forall>c\<in>set later. LoadIndices \<notin> set c" by auto
  from Cons.prems(2) c r l have "t' = t2" "lg = calls # later" by auto
  with t1 ih show ?case by auto
qed

lemma image_tool_calls_loaded:
  "indices_loaded t \<Longrightarrow> image_tool_calls sv t cs = (t', lg) \<Longrightarrow>
     indices_loaded t' \<and> (\<forall>c\<in>set lg. LoadIndices \<notin> set c)"
proof (induction cs arbitrary: t t' lg)
  case Nil
  then show ?case by simp
next
  case (Cons c cs)
  obtain w q k where c: "c = (w, q, k)" by (cases c) auto
  obtain w1 t1 calls out where r: "RAGImageTool_run sv w t q k = ((w1, t1, calls), out)"
    by (metis prod.exhaust)
  obtain t2 later where l: "image_tool_calls sv t1 cs = (t2, later)" by (metis prod.exhaust)
  from image_run_effect(2)[OF r Cons.prems(1)] have t1: "indices_loaded t1" "LoadIndices \<notin> set calls"
    by auto
  from Cons.IH[OF t1(1) l] have ih: "indices_loaded t2" "\<forall>c\<in>set later. LoadIndices \<notin> set c" by auto
  from Cons.prems(2) c r l have "t' = t2" "lg = calls # later" by auto
  with t1 ih show ?case by auto
qed

text \<open>
  Claim C10. For a retrieval tool that was given a retriever: a run with the flag unset
  calls \<open>load_indices\<close> exactly once, first, and leaves the flag set exactly when that
  call succeeded (so after a failed load the next run tries again); once the flag is
  set, it stays set through any number of further runs and none of them calls
  \<open>load_indices\<close>.
\<close>

theorem lazy_load_memoized:
  assumes "has_retriever t"
  shows "(\<not> indices_loaded t \<longrightarrow>
            (\<exists>rest. snd (snd (fst (RAGTextTool_run sv w t q k))) = LoadIndices # rest
                    \<and> LoadIndices \<notin> set rest)
            \<and> (indices_loaded (fst (snd (fst (RAGTextTool_run sv w t q k))))
                 \<longleftrightarrow> snd (load_indices (files w) (objects w) (retriever w)) = Inr ())
            \<and> (\<exists>rest. snd (snd (fst (RAGImageTool_run sv w t q k))) = LoadIndices # rest
                    \<and> LoadIndices \<notin> set rest)
            \<and> (indices_loaded (fst (snd (fst (RAGImageTool_run sv w t q k))))
                 \<longleftrightarrow> snd (load_indices (files w) (objects w) (retriever w)) = Inr ()))
       \<and> (indices_loaded t \<longrightarrow>
            indices_loaded (fst (text_tool_calls sv t cs))
            \<and> (\<forall>c\<in>set (snd (text_tool_calls sv t cs)). LoadIndices \<notin> set c)
            \<and> indices_loaded (fst (image_tool_calls sv t cs))
            \<and> (\<forall>c\<in>set (snd (image_tool_calls sv t cs)). LoadIndices \<notin> set c))"
proof (intro conjI impI)
  obtain w1 t1 calls out where r: "RAGTextTool_run sv w t q k = ((w1, t1, calls), out)"
    by (metis prod.exhaust)
  obtain w2 t2 calls2 out2 where r2: "RAGImageTool_run sv w t q k = ((w2, t2, calls2), out2)"
    by (metis prod.exhaust)
  {
    assume n: "\<not> indices_loaded t"
    from text_run_effect(3)[OF r n assms] r
    show "\<exists>rest. snd (snd (fst (RAGTextTool_run sv w t q k))) = LoadIndices # rest \<and> LoadIndices \<notin> set rest"
      and "indices_loaded (fst (snd (fst (RAGTextTool_run sv w t q k))))
                 \<longleftrightarrow> snd (load_indices (files w) (objects w) (retriever w)) = Inr ()"
      by auto
    from image_run_effect(3)[OF r2 n assms] r2
    show "\<exists>rest. snd (snd (fst (RAGImageTool_run sv w t q k))) = LoadIndices # rest \<and> LoadIndices \<notin> set rest"
      and "indices_loaded (fst (snd (fst (RAGImageTool_run sv w t q k))))
                 \<longleftrightarrow> snd (load_indices (files w) (objects w) (retriever w)) = Inr ()"
      by auto
  }
  {
    assume l: "indices_loaded t"
    obtain t' lg where a: "text_tool_calls sv t cs = (t', lg)" by (metis prod.exhaust)
    obtain t'' lg' where b: "image_tool_calls sv t cs = (t'', lg')" by (metis prod.exhaust)
    from text_tool_calls_loaded[OF l a] a
    show "indices_loaded (fst (text_tool_calls sv t cs))"
      and "\<forall>c\<in>set (snd (text_tool_calls sv t cs)). LoadIndices \<notin> set c" by auto
    from image_tool_calls_loaded[OF l b] b
    show "indices_loaded (fst (image_tool_calls sv t cs))"
      and "\<forall>c\<in>set (snd (image_tool_calls sv t cs)). LoadIndices \<notin> set c" by auto
  }
qed

theorem lazy_load_memoized_witness:
  "has_retriever (RAGTool_init True) \<and> \<not> indices_loaded (RAGTool_init True)
   \<and> snd (load_indices empty_dir [] MultimodalRetriever_init) = Inl FileNotFoundError
   \<and> \<not> indices_loaded (fst (snd (fst
         (RAGTextTool_run demo_services (demo_world empty_dir) (RAGTool_init True) ''pizza'' 5))))
   \<and> snd (load_indices text_only_dir [] MultimodalRetriever_init) = Inr ()
   \<and> indices_loaded (fst (snd (fst
         (RAGTextTool_run demo_services (demo_world text_only_dir) (RAGTool_init True) ''pizza'' 5))))
   \<and> has_retriever loaded_tool \<and> indices_loaded loaded_tool
   \<and> indices_loaded (fst (text_tool_calls demo_services loaded_tool
         [(demo_world text_only_dir, ''pizza'', 5), (demo_world empty_dir, ''sushi'', 5)]))
   \<and> list_all (\<lambda>c. LoadIndices \<notin> set c) (snd (text_tool_calls demo_services loaded_tool
         [(demo_world text_only_dir, ''pizza'', 5), (demo_world empty_dir, ''sushi'', 5)]))"
proof -
  have h: "has_retriever (RAGTool_init True)" "\<not> indices_loaded (RAGTool_init True)"
    by (simp_all add: RAGTool_init_def)
  have hl: "has_retriever loaded_tool" "indices_loaded loaded_tool"
    by (simp_all add: loaded_tool_def)
  have e: "snd (load_indices (files (demo_world empty_dir)) (objects (demo_world empty_dir))
      (retriever (demo_world empty_dir))) = Inl FileNotFoundError"
    by (simp add: demo_world_def load_indices_def empty_dir_def)
  have f: "snd (load_indices (files (demo_world text_only_dir)) (objects (demo_world text_only_dir))
      (retriever (demo_world text_only_dir))) = Inr ()"
    by (simp add: demo_world_def load_indices_def text_only_dir_def load_def)
  from lazy_load_memoized[OF h(1), of demo_services "demo_world empty_dir" "''pizza''" 5] h(2) e
  have a: "\<not> indices_loaded (fst (snd (fst
         (RAGTextTool_run demo_services (demo_world empty_dir) (RAGTool_init True) ''pizza'' 5))))"
    by simp
  from lazy_load_memoized[OF h(1), of demo_services "demo_world text_only_dir" "''pizza''" 5] h(2) f
  have b: "indices_loaded (fst (snd (fst
         (RAGTextTool_run demo_services (demo_world text_only_dir) (RAGTool_init True) ''pizza'' 5))))"
    by simp
  from lazy_load_memoized[OF hl(1), of demo_services _ _ _
      "[(demo_world text_only_dir, ''pizza'', 5), (demo_world empty_dir, ''sushi'', 5)]"] hl(2)
  have c: "indices_loaded (fst (text_tool_calls demo_services loaded_tool
         [(demo_world text_only_dir, ''pizza'', 5), (demo_world empty_dir, ''sushi'', 5)]))"
    and d: "list_all (\<lambda>c. LoadIndices \<notin> set c) (snd (text_tool_calls demo_services loaded_tool
         [(demo_world text_only_dir, ''pizza'', 5), (demo_world empty_dir, ''sushi'', 5)]))"
    unfolding list_all_iff by blast+
  from e f have e': "snd (load_indices empty_dir [] MultimodalRetriever_init) = Inl FileNotFoundError"
    and f': "snd (load_indices text_only_dir [] MultimodalRetriever_init) = Inr ()"
    by (simp_all add: demo_world_def)
  from h hl a b c d e' f' show ?thesis by blast
qed

subsection \<open>The agent loop\<close>

lemma should_continue_response:
  "should_continue (msgs @ [AIMessage content tcs]) = Inr (if tcs \<noteq> [] then ''tools'' else ''end'')"
  by (simp add: should_continue_def py_getitem_def)

lemma requested_calls_response: "requested_calls (msgs @ [AIMessage content tcs]) = tcs"
  by (simp add: requested_calls_def py_getitem_def)

lemma run_graph_agent_final:
  assumes "model (model_input sp msgs) = Inr (content, [])"
  shows "run_graph (Suc n) model sp exec Agent s msgs =
     (Finished (msgs @ [AIMessage content [] ]), s,
      [Reasoning (needs_system_prompt msgs) (model_input sp msgs)])"
  using assms by (simp add: call_model_def should_continue_response route_def)

lemma run_graph_agent_acts:
  assumes "model (model_input sp msgs) = Inr (content, tcs)" and "tcs \<noteq> []"
  shows "\<exists>out s' steps. run_graph (Suc (Suc n)) model sp exec Agent s msgs =
     (out, s', Reasoning (needs_system_prompt msgs) (model_input sp msgs) # Acting tcs # steps)"
  using assms
  by (simp add: call_model_def should_continue_response route_def requested_calls_response
      split: prod.splits)

text \<open>
  Claim C8. After a reasoning step whose response carries the tool calls \<open>tcs\<close>, the
  conditional edge leads to the tools node exactly when \<open>tcs\<close> is not empty and to the
  end exactly when it is empty: with tool calls the next step is the acting step that
  executes them, without tool calls the run is finished with the response as its last
  message. A first response without tool calls ends the run after one reasoning step
  and no acting step.
\<close>

theorem routing_after_reasoning:
  "(model (model_input sp msgs) = Inr (content, tcs) \<longrightarrow>
      (\<exists>label. should_continue (msgs @ [AIMessage content tcs]) = Inr label
          \<and> (route label = Tools \<longleftrightarrow> tcs \<noteq> []) \<and> (route label = END \<longleftrightarrow> tcs = []))
      \<and> (tcs \<noteq> [] \<longrightarrow>
           (\<exists>out s' steps. run_graph (Suc (Suc n)) model sp exec Agent s msgs =
              (out, s', Reasoning (needs_system_prompt msgs) (model_input sp msgs) # Acting tcs # steps)))
      \<and> (tcs = [] \<longrightarrow>
           run_graph (Suc n) model sp exec Agent s msgs =
             (Finished (msgs @ [AIMessage content [] ]), s,
              [Reasoning (needs_system_prompt msgs) (model_input sp msgs)])))
   \<and> (model [SystemMessage sp, HumanMessage q] = Inr (answer, []) \<longrightarrow>
        run model sp exec (Suc n) s q =
          (Finished [HumanMessage q, AIMessage answer [] ], s,
           [Reasoning True [SystemMessage sp, HumanMessage q] ]))"
proof (intro conjI impI)
  assume m: "model (model_input sp msgs) = Inr (content, tcs)"
  show "\<exists>label. should_continue (msgs @ [AIMessage content tcs]) = Inr label
          \<and> (route label = Tools \<longleftrightarrow> tcs \<noteq> []) \<and> (route label = END \<longleftrightarrow> tcs = [])"
    by (simp add: should_continue_response route_def)
  {
    assume "tcs \<noteq> []"
    with m show "\<exists>out s' steps. run_graph (Suc (Suc n)) model sp exec Agent s msgs =
              (out, s', Reasoning (needs_system_prompt msgs) (model_input sp msgs) # Acting tcs # steps)"
      by (rule run_graph_agent_acts)
  }
  {
    assume "tcs = []"
    with m have "model (model_input sp msgs) = Inr (content, [])" by simp
    then show "run_graph (Suc n) model sp exec Agent s msgs =
             (Finished (msgs @ [AIMessage content [] ]), s,
              [Reasoning (needs_system_prompt msgs) (model_input sp msgs)])"
      by (rule run_graph_agent_final)
  }
next
  assume a: "model [SystemMessage sp, HumanMessage q] = Inr (answer, [])"
  have i: "model_input sp [HumanMessage q] = [SystemMessage sp, HumanMessage q]"
    "needs_system_prompt [HumanMessage q]"
    by (simp_all add: model_input_def needs_system_prompt_def)
  from a i show "run model sp exec (Suc n) s q =
          (Finished [HumanMessage q, AIMessage answer [] ], s,
           [Reasoning True [SystemMessage sp, HumanMessage q] ])"
    using run_graph_agent_final[of model sp "[HumanMessage q]" answer n exec s]
    by (simp add: run_def)
qed

theorem routing_after_reasoning_witness:
  "demo_model (model_input ''Be helpful.'' [HumanMessage ''pizza?''])
     = Inr ([], [ToolCall ''rag_text_search'' [(''query'', ''pizza'')] ''call_1''])
   \<and> [ToolCall ''rag_text_search'' [(''query'', ''pizza'')] ''call_1''] \<noteq> []
   \<and> (\<exists>out s' steps. run_graph (Suc (Suc 0)) demo_model ''Be helpful.'' demo_executor Agent ()
          [HumanMessage ''pizza?'']
        = (out, s', Reasoning (needs_system_prompt [HumanMessage ''pizza?''])
                      (model_input ''Be helpful.'' [HumanMessage ''pizza?''])
                    # Acting [ToolCall ''rag_text_search'' [(''query'', ''pizza'')] ''call_1'']
                    # steps))
   \<and> direct_model [SystemMessage ''Be helpful.'', HumanMessage ''hello'']
     = Inr (''Hello! What would you like to eat?'', [])
   \<and> run direct_model ''Be helpful.'' demo_executor (Suc 0) () ''hello''
     = (Finished [HumanMessage ''hello'', AIMessage ''Hello! What would you like to eat?'' [] ], (),
        [Reasoning True [SystemMessage ''Be helpful.'', HumanMessage ''hello''] ])"
proof -
  let ?tc = "ToolCall ''rag_text_search'' [(''query'', ''pizza'')] ''call_1''"
  have a: "demo_model (model_input ''Be helpful.'' [HumanMessage ''pizza?'']) = Inr ([], [?tc])"
    by (simp add: demo_model_def model_input_def needs_system_prompt_def)
  have b: "[?tc] \<noteq> []" by simp
  have c: "direct_model [SystemMessage ''Be helpful.'', HumanMessage ''hello'']
     = Inr (''Hello! What would you like to eat?'', [])"
    by (simp add: direct_model_def)
  from routing_after_reasoning[of demo_model "''Be helpful.''" "[HumanMessage ''pizza?'']" "[]" "[?tc]"
      0 demo_executor "()"] a b
  have d: "\<exists>out s' steps. run_graph (Suc (Suc 0)) demo_model ''Be helpful.'' demo_executor Agent ()
          [HumanMessage ''pizza?'']
        = (out, s', Reasoning (needs_system_prompt [HumanMessage ''pizza?''])
                      (model_input ''Be helpful.'' [HumanMessage ''pizza?''])
                    # Acting [?tc] # steps)"
    by blast
  from routing_after_reasoning[of direct_model "''Be helpful.''" _ _ _ 0 demo_executor "()" "''hello''"
      "''Hello! What would you like to eat?''"] c
  have e: "run direct_model ''Be helpful.'' demo_executor (Suc 0) () ''hello''
     = (Finished [HumanMessage ''hello'', AIMessage ''Hello! What would you like to eat?'' [] ], (),
        [Reasoning True [SystemMessage ''Be helpful.'', HumanMessage ''hello''] ])"
    by blast
  from a b c d e show ?thesis by blast
qed

lemma run_tool_calls_no_system:
  "run_tool_calls exec tcs s = (s', ms) \<Longrightarrow> \<not> list_ex is_SystemMessage ms"
  by (induction tcs arbitrary: s s' ms) (auto split: prod.splits)

lemma call_model_no_system:
  "call_model model sp msgs = Inr update \<Longrightarrow> \<not> list_ex is_SystemMessage update"
  by (auto simp: call_model_def split: sum.splits prod.splits)

lemma reasoning_step_leads:
  "\<not> list_ex is_SystemMessage msgs \<Longrightarrow>
     prompt_leads sp (Reasoning (needs_system_prompt msgs) (model_input sp msgs))"
  by (simp add: needs_system_prompt_def model_input_def)

lemma run_graph_prompt_leads:
  "\<not> list_ex is_SystemMessage msgs \<Longrightarrow>
     \<forall>st\<in>set (snd (snd (run_graph fuel model sp exec nd s msgs))). prompt_leads sp st"
proof (induction fuel model sp exec nd s msgs rule: run_graph.induct)
  case (1 fuel model sp exec s msgs)
  then show ?case by simp
next
  case (2 model sp exec s msgs)
  then show ?case by simp
next
  case (3 model sp exec s msgs)
  then show ?case by simp
next
  case (4 n model sp exec s msgs)
  have lead: "prompt_leads sp (Reasoning (needs_system_prompt msgs) (model_input sp msgs))"
    using 4(2) by (rule reasoning_step_leads)
  show ?case
  proof (cases "call_model model sp msgs")
    case (Inl e)
    with lead show ?thesis by (simp del: prompt_leads.simps)
  next
    case (Inr update)
    note upd = this
    have ns: "\<not> list_ex is_SystemMessage (msgs @ update)"
      using 4(2) call_model_no_system[OF upd] by simp
    show ?thesis
    proof (cases "should_continue (msgs @ update)")
      case (Inl e)
      with upd lead show ?thesis by (simp del: prompt_leads.simps)
    next
      case (Inr label)
      from 4(1)[OF upd Inr ns] upd Inr lead show ?thesis
        by (auto simp del: prompt_leads.simps split: prod.splits)
    qed
  qed
next
  case (5 n model sp exec s msgs)
  obtain s1 obs where tn: "tool_node exec s msgs = (s1, obs)" by (metis prod.exhaust)
  then have "\<not> list_ex is_SystemMessage obs"
    by (auto simp: tool_node_def dest: run_tool_calls_no_system)
  with 5(2) have ns: "\<not> list_ex is_SystemMessage (msgs @ obs)" by simp
  from 5(1)[OF tn[symmetric] ns] tn show ?case
    by (auto split: prod.splits)
qed

text \<open>
  Claim C9, as the code has it. In a run started by \<open>run\<close>, every reasoning step prepends
  the system prompt to the messages the model is invoked on (the prompt is never stored
  in the state), so that the model always sees exactly one system message, the first
  one.
\<close>

theorem system_prompt_at_every_reasoning_step:
  "\<forall>st\<in>set (snd (snd (run model sp exec fuel s q))).
      case st of
        Reasoning prepended ctx \<Rightarrow>
          prepended \<and> (\<exists>msgs. ctx = SystemMessage sp # msgs \<and> \<not> list_ex is_SystemMessage msgs)
      | Acting tcs \<Rightarrow> True"
proof
  fix st assume "st \<in> set (snd (snd (run model sp exec fuel s q)))"
  with run_graph_prompt_leads[of "[HumanMessage q]" fuel model sp exec Agent s]
  have "prompt_leads sp st" by (simp add: run_def)
  then show "case st of
        Reasoning prepended ctx \<Rightarrow>
          prepended \<and> (\<exists>msgs. ctx = SystemMessage sp # msgs \<and> \<not> list_ex is_SystemMessage msgs)
      | Acting tcs \<Rightarrow> True"
    by (cases st) simp_all
qed

lemma demo_run:
  "run demo_model ''Be helpful.'' demo_executor 3 () ''pizza?'' =
     (Finished [HumanMessage ''pizza?'',
                AIMessage [] [ToolCall ''rag_text_search'' [(''query'', ''pizza'')] ''call_1''],
                ToolMessage ''No restaurants found matching your query.'' ''call_1'',
                AIMessage ''Try Luigi.'' [] ],
      (),
      [Reasoning True [SystemMessage ''Be helpful.'', HumanMessage ''pizza?''],
       Acting [ToolCall ''rag_text_search'' [(''query'', ''pizza'')] ''call_1''],
       Reasoning True [SystemMessage ''Be helpful.'', HumanMessage ''pizza?'',
                AIMessage [] [ToolCall ''rag_text_search'' [(''query'', ''pizza'')] ''call_1''],
                ToolMessage ''No restaurants found matching your query.'' ''call_1''] ])"
  by (simp add: run_def numeral_3_eq_3 call_model_def model_input_def needs_system_prompt_def
      demo_model_def should_continue_def py_getitem_def route_def tool_node_def requested_calls_def
      demo_executor_def)

theorem system_prompt_at_every_reasoning_step_witness:
  "Reasoning True [SystemMessage ''Be helpful.'', HumanMessage ''pizza?'',
                AIMessage [] [ToolCall ''rag_text_search'' [(''query'', ''pizza'')] ''call_1''],
                ToolMessage ''No restaurants found matching your query.'' ''call_1'']
     \<in> set (snd (snd (run demo_model ''Be helpful.'' demo_executor 3 () ''pizza?'')))
   \<and> (\<exists>msgs. [SystemMessage ''Be helpful.'', HumanMessage ''pizza?'',
                AIMessage [] [ToolCall ''rag_text_search'' [(''query'', ''pizza'')] ''call_1''],
                ToolMessage ''No restaurants found matching your query.'' ''call_1'']
               = SystemMessage ''Be helpful.'' # msgs \<and> \<not> list_ex is_SystemMessage msgs)"
proof -
  let ?st = "Reasoning True [SystemMessage ''Be helpful.'', HumanMessage ''pizza?'',
                AIMessage [] [ToolCall ''rag_text_search'' [(''query'', ''pizza'')] ''call_1''],
                ToolMessage ''No restaurants found matching your query.'' ''call_1'']"
  have m: "?st \<in> set (snd (snd (run demo_model ''Be helpful.'' demo_executor 3 () ''pizza?'')))"
    by (simp add: demo_run)
  from system_prompt_at_every_reasoning_step[of demo_model "''Be helpful.''" demo_executor 3 "()"
      "''pizza?''"] m
  have "case ?st of
        Reasoning prepended ctx \<Rightarrow>
          prepended \<and> (\<exists>msgs. ctx = SystemMessage ''Be helpful.'' # msgs \<and> \<not> list_ex is_SystemMessage msgs)
      | Acting tcs \<Rightarrow> True"
    by blast
  with m show ?thesis by simp
qed

text \<open>
  The claim as stated fails on a run with two reasoning steps: the system prompt is
  prepended at both of them, not at the first one only.
\<close>

theorem system_prompt_prepended_twice_counterexample:
  "snd (snd (run demo_model ''Be helpful.'' demo_executor 3 () ''pizza?'')) =
     [Reasoning True [SystemMessage ''Be helpful.'', HumanMessage ''pizza?''],
      Acting [ToolCall ''rag_text_search'' [(''query'', ''pizza'')] ''call_1''],
      Reasoning True [SystemMessage ''Be helpful.'', HumanMessage ''pizza?'',
                AIMessage [] [ToolCall ''rag_text_search'' [(''query'', ''pizza'')] ''call_1''],
                ToolMessage ''No restaurants found matching your query.'' ''call_1''] ]
   \<and> injections (snd (snd (run demo_model ''Be helpful.'' demo_executor 3 () ''pizza?''))) = 2"
  by (simp add: demo_run injections_def)

end
